theory Spec2Isabelle
  imports Complex_Main "HOL-Library.AList" "HOL-Library.Sublist"
begin

section \<open>JavaScript values\<close>

text \<open>
  The worker (\<^verbatim>\<open>src/index.js\<close>) handles untyped JavaScript data: resolver arguments,
  the environment binding, the completion object returned by the OpenAI client. They are
  modelled by one datatype of JSON-like values. A finite number is a real (every finite
  double is one; \<^verbatim>\<open>-0\<close> and \<^verbatim>\<open>0\<close> coincide, as they do under \<^verbatim>\<open>===\<close>), the three
  non-finite numbers are constructors of their own. An object is the list of its own
  properties in insertion order.
\<close>

datatype jsval =
    JUndefined
  | JNull
  | JBool bool
  | JNum real
  | JNaN
  | JPosInfinity
  | JNegInfinity
  | JStr string
  | JArr "jsval list"
  | JObj "(string \<times> jsval) list"

text \<open>ToBoolean, as used by \<^verbatim>\<open>!x\<close> and \<^verbatim>\<open>x ? a : b\<close>.\<close>

fun truthy :: "jsval \<Rightarrow> bool" where
  "truthy JUndefined = False"
| "truthy JNull = False"
| "truthy (JBool b) = b"
| "truthy (JNum x) = (x \<noteq> 0)"
| "truthy JNaN = False"
| "truthy JPosInfinity = True"
| "truthy JNegInfinity = True"
| "truthy (JStr s) = (s \<noteq> [])"
| "truthy (JArr xs) = True"
| "truthy (JObj fs) = True"

text \<open>
  A thrown value is an error object: its class and its \<^verbatim>\<open>message\<close>. \<open>APIError\<close> stands
  for \<^verbatim>\<open>OpenAI.APIError\<close> and the subclasses the client raises for an HTTP status of the
  upstream (\<^verbatim>\<open>BadRequestError\<close>, \<^verbatim>\<open>RateLimitError\<close>, ...). \<open>APIConnectionError\<close> is the
  subclass of \<^verbatim>\<open>OpenAI.APIError\<close> the client raises when the request does not get through
  (the network fails, the connection times out). \<open>Error\<close> stands for \<^verbatim>\<open>Error\<close> itself and
  every class that is none of the others.
\<close>

datatype error_class = APIError | APIConnectionError | TypeError | SyntaxError | Error

datatype js_error = Thrown (error_class: error_class) (message: string)

text \<open>\<^verbatim>\<open>error instanceof OpenAI.APIError\<close>: the class itself or a subclass.\<close>

definition instanceof_APIError :: "js_error \<Rightarrow> bool" where
  "instanceof_APIError e = (error_class e = APIError \<or> error_class e = APIConnectionError)"

text \<open>
  Reading a property, \<^verbatim>\<open>v.k\<close>: a TypeError on \<^verbatim>\<open>undefined\<close> and \<^verbatim>\<open>null\<close> (the message
  is V8's wording), the own property of an object, \<^verbatim>\<open>undefined\<close> when there is none.
  The keys the worker reads (\<^verbatim>\<open>choices\<close>, \<^verbatim>\<open>message\<close>, \<^verbatim>\<open>usage\<close>, ...) are no
  built-in property of an array, string, number or boolean, so those give \<^verbatim>\<open>undefined\<close>.
\<close>

definition cannot_read :: "string \<Rightarrow> string \<Rightarrow> js_error" where
  "cannot_read what k =
     Thrown TypeError (''Cannot read properties of '' @ what @ '' (reading '' @ [CHR 0x27] @ k @ [CHR 0x27] @ '')'')"

fun get_prop :: "jsval \<Rightarrow> string \<Rightarrow> js_error + jsval" where
  "get_prop JUndefined k = Inl (cannot_read ''undefined'' k)"
| "get_prop JNull k = Inl (cannot_read ''null'' k)"
| "get_prop (JObj fs) k = Inr (case map_of fs k of Some v \<Rightarrow> v | None \<Rightarrow> JUndefined)"
| "get_prop v k = Inr JUndefined"

text \<open>Reading index 0, \<^verbatim>\<open>v[0]\<close>: the first element of an array, the first character of a string.\<close>

fun get_index0 :: "jsval \<Rightarrow> js_error + jsval" where
  "get_index0 JUndefined = Inl (cannot_read ''undefined'' ''0'')"
| "get_index0 JNull = Inl (cannot_read ''null'' ''0'')"
| "get_index0 (JArr xs) = Inr (case xs of [] \<Rightarrow> JUndefined | x # rest \<Rightarrow> x)"
| "get_index0 (JStr s) = Inr (case s of [] \<Rightarrow> JUndefined | c # rest \<Rightarrow> JStr [c])"
| "get_index0 (JObj fs) = Inr (case map_of fs ''0'' of Some v \<Rightarrow> v | None \<Rightarrow> JUndefined)"
| "get_index0 v = Inr JUndefined"

text \<open>Sequencing of steps that may throw: the first error ends the block.\<close>

fun and_then :: "js_error + 'a \<Rightarrow> ('a \<Rightarrow> js_error + 'b) \<Rightarrow> js_error + 'b" where
  "and_then (Inl e) f = Inl e"
| "and_then (Inr v) f = f v"

text \<open>Assignment \<^verbatim>\<open>obj.k = v\<close>: replaces the property in place, or appends a new one.\<close>

definition set_prop :: "(string \<times> jsval) list \<Rightarrow> string \<Rightarrow> jsval \<Rightarrow> (string \<times> jsval) list" where
  "set_prop fs k v = AList.update k v fs"

definition has_prop :: "(string \<times> jsval) list \<Rightarrow> string \<Rightarrow> bool" where
  "has_prop fs k = (map_of fs k \<noteq> None)"

section \<open>The resolvers\<close>

text \<open>
  The first parameter of \<^verbatim>\<open>chat\<close> is destructured into seven arguments; an argument that
  is not supplied is \<^verbatim>\<open>undefined\<close>. The second is the context \<^verbatim>\<open>{ env }\<close>, of which the
  resolver reads \<^verbatim>\<open>env.OPENAI_API_KEY\<close>.
\<close>

record chat_args =
  messages :: jsval
  model :: jsval
  temperature :: jsval
  max_tokens :: jsval
  top_p :: jsval
  frequency_penalty :: jsval
  presence_penalty :: jsval

record worker_env =
  OPENAI_API_KEY :: jsval

record resolver_context =
  env :: worker_env

text \<open>
  The OpenAI client is an external collaborator. \<open>new_OpenAI\<close> is the constructor
  \<^verbatim>\<open>new OpenAI({ apiKey })\<close>: \<open>None\<close> when it returns, the error when it throws.
  \<open>completions_create\<close> is \<^verbatim>\<open>await openai.chat.completions.create(requestParams)\<close>:
  the completion it resolves with, or the error it rejects with.
\<close>

record openai_sdk =
  new_OpenAI :: "jsval \<Rightarrow> js_error option"
  completions_create :: "(string \<times> jsval) list \<Rightarrow> js_error + jsval"

text \<open>\<^verbatim>\<open>health: () => 'GraphQL OpenAI Service is running!'\<close>; the arguments and the context are ignored.\<close>

definition health :: "'a \<Rightarrow> 'c \<Rightarrow> js_error + string" where
  "health args ctx = Inr ''GraphQL OpenAI Service is running!''"

text \<open>The object \<^verbatim>\<open>requestParams\<close>, lines 76 to 92.\<close>

definition requestParams :: "chat_args \<Rightarrow> (string \<times> jsval) list" where
  "requestParams a =
     (let p0 = [(''model'', model a), (''messages'', messages a),
                (''temperature'', temperature a), (''max_tokens'', max_tokens a)];
          p1 = (if top_p a \<noteq> JUndefined \<and> top_p a \<noteq> JNum 1
                then set_prop p0 ''top_p'' (top_p a) else p0);
          p2 = (if frequency_penalty a \<noteq> JUndefined \<and> frequency_penalty a \<noteq> JNum 0
                then set_prop p1 ''frequency_penalty'' (frequency_penalty a) else p1);
          p3 = (if presence_penalty a \<noteq> JUndefined \<and> presence_penalty a \<noteq> JNum 0
                then set_prop p2 ''presence_penalty'' (presence_penalty a) else p2)
      in p3)"

text \<open>The value returned from the completion, lines 97 to 113.\<close>

definition chat_usage :: "jsval \<Rightarrow> js_error + jsval" where
  "chat_usage completion =
     and_then (get_prop completion ''usage'') (\<lambda>usage.
       if truthy usage then
         and_then (get_prop usage ''prompt_tokens'') (\<lambda>pt.
         and_then (get_prop usage ''completion_tokens'') (\<lambda>ct.
         and_then (get_prop usage ''total_tokens'') (\<lambda>tt.
           Inr (JObj [(''prompt_tokens'', pt), (''completion_tokens'', ct), (''total_tokens'', tt)]))))
       else Inr JNull)"

definition chat_response :: "jsval \<Rightarrow> js_error + jsval" where
  "chat_response completion =
     and_then (get_prop completion ''choices'') (\<lambda>choices.
     and_then (get_index0 choices) (\<lambda>choice.
     and_then (get_prop completion ''id'') (\<lambda>cid.
     and_then (get_prop completion ''object'') (\<lambda>cobject.
     and_then (get_prop completion ''created'') (\<lambda>ccreated.
     and_then (get_prop completion ''model'') (\<lambda>cmodel.
     and_then (and_then (get_prop choice ''message'') (\<lambda>m. get_prop m ''role'')) (\<lambda>role.
     and_then (and_then (get_prop choice ''message'') (\<lambda>m. get_prop m ''content'')) (\<lambda>content.
     and_then (chat_usage completion) (\<lambda>usage.
       Inr (JObj [(''id'', cid), (''object'', cobject), (''created'', ccreated),
                  (''model'', cmodel),
                  (''message'', JObj [(''role'', role), (''content'', content)]),
                  (''usage'', usage)]))))))))))"

text \<open>
  The \<^verbatim>\<open>try\<close> block, lines 69 to 113. The second component lists the payloads sent
  upstream, so that whether a call was made, and with what, is part of the result.
\<close>

definition chat_try :: "openai_sdk \<Rightarrow> chat_args \<Rightarrow> jsval \<Rightarrow> (js_error + jsval) \<times> (string \<times> jsval) list list" where
  "chat_try sdk a key =
     (case new_OpenAI sdk key of
        Some e \<Rightarrow> (Inl e, [])
      | None \<Rightarrow>
          (let p = requestParams a
           in (and_then (completions_create sdk p) chat_response, [p])))"

text \<open>The \<^verbatim>\<open>catch\<close> block, lines 114 to 120: the error it throws.\<close>

definition chat_catch :: "js_error \<Rightarrow> js_error" where
  "chat_catch e =
     (if instanceof_APIError e then Thrown Error (''OpenAI API Error: '' @ message e)
      else Thrown Error (''Failed to call OpenAI API: '' @ message e))"

text \<open>The resolver \<^verbatim>\<open>chat\<close>: \<open>Inl\<close> is the error it throws, \<open>Inr\<close> the value it returns.\<close>

definition chat :: "openai_sdk \<Rightarrow> chat_args \<Rightarrow> resolver_context \<Rightarrow> (js_error + jsval) \<times> (string \<times> jsval) list list" where
  "chat sdk a ctx =
     (let key = OPENAI_API_KEY (env ctx) in
      if \<not> truthy key then (Inl (Thrown Error ''OpenAI API key is not configured''), [])
      else
        (case chat_try sdk a key of
           (Inl e, calls) \<Rightarrow> (Inl (chat_catch e), calls)
         | (Inr v, calls) \<Rightarrow> (Inr v, calls)))"

section \<open>The HTTP dispatch layer\<close>

text \<open>
  A response is its status, its headers (name and value, names compared as they are
  written; the worker spells each name one way) and its body. \<open>JsonText v\<close> stands for
  the text \<^verbatim>\<open>JSON.stringify(v)\<close>.
\<close>

datatype response_body = NoBody | Text string | JsonText jsval

record response =
  status :: nat
  headers :: "(string \<times> string) list"
  body :: response_body

text \<open>\<^verbatim>\<open>new Response(body, { status, headers })\<close>: the status is 200 when none is given.\<close>

definition new_Response :: "response_body \<Rightarrow> nat option \<Rightarrow> (string \<times> string) list \<Rightarrow> response" where
  "new_Response b st hs =
     \<lparr>status = (case st of None \<Rightarrow> 200 | Some s \<Rightarrow> s), headers = hs, body = b\<rparr>"

text \<open>\<^verbatim>\<open>headers.set(name, value)\<close>\<close>

definition headers_set :: "(string \<times> string) list \<Rightarrow> string \<Rightarrow> string \<Rightarrow> (string \<times> string) list" where
  "headers_set hs k v = AList.update k v hs"

definition setCorsHeaders :: "response \<Rightarrow> response" where
  "setCorsHeaders r =
     (let h1 = headers_set (headers r) ''Access-Control-Allow-Origin'' ''*'';
          h2 = headers_set h1 ''Access-Control-Allow-Methods'' ''GET, POST, OPTIONS'';
          h3 = headers_set h2 ''Access-Control-Allow-Headers'' ''Content-Type, Authorization''
      in r\<lparr>headers := h3\<rparr>)"

text \<open>
  Of a request the worker reads the method, the path of its URL and, on a POST to
  \<^verbatim>\<open>/graphql\<close>, the outcome of \<^verbatim>\<open>await request.json()\<close>: the parsed value, or the
  SyntaxError of a body that is not valid JSON.
\<close>

record request =
  req_method :: string
  pathname :: string
  json :: "js_error + jsval"

text \<open>
  \<^verbatim>\<open>Date.prototype.toISOString\<close> is a built-in of the language, not code of the worker. It
  is modelled as ECMA-262 defines it, on the time value of the date: the milliseconds since
  1970-01-01T00:00:00Z, an integer. \<open>Day\<close>, \<open>HourFromTime\<close>, \<open>MinFromTime\<close>,
  \<open>SecFromTime\<close> and \<open>msFromTime\<close> are the standard's; division rounds down.
\<close>

definition Day :: "int \<Rightarrow> int" where
  "Day t = t div 86400000"

definition HourFromTime :: "int \<Rightarrow> int" where
  "HourFromTime t = (t div 3600000) mod 24"

definition MinFromTime :: "int \<Rightarrow> int" where
  "MinFromTime t = (t div 60000) mod 60"

definition SecFromTime :: "int \<Rightarrow> int" where
  "SecFromTime t = (t div 1000) mod 60"

definition msFromTime :: "int \<Rightarrow> int" where
  "msFromTime t = t mod 1000"

text \<open>
  \<open>YearFromTime\<close>, \<open>MonthFromTime\<close> (0 for January) and \<open>DateFromTime\<close>, computed from the
  day number by the closed form of the proleptic Gregorian calendar: eras of 400 years and
  146097 days that start on a first of March, the year and the day within the era, and the
  month counted from March.
\<close>

definition day_of_era :: "int \<Rightarrow> int" where
  "day_of_era t = (Day t + 719468) mod 146097"

definition year_of_era :: "int \<Rightarrow> int" where
  "year_of_era t =
     (let doe = day_of_era t
      in (doe - doe div 1460 + doe div 36524 - doe div 146096) div 365)"

definition day_of_year :: "int \<Rightarrow> int" where
  "day_of_year t =
     (let yoe = year_of_era t
      in day_of_era t - (365 * yoe + yoe div 4 - yoe div 100))"

definition month_index :: "int \<Rightarrow> int" where
  "month_index t = (5 * day_of_year t + 2) div 153"

definition MonthFromTime :: "int \<Rightarrow> int" where
  "MonthFromTime t = (let mp = month_index t in if mp < 10 then mp + 2 else mp - 10)"

definition DateFromTime :: "int \<Rightarrow> int" where
  "DateFromTime t = day_of_year t - (153 * month_index t + 2) div 5 + 1"

definition YearFromTime :: "int \<Rightarrow> int" where
  "YearFromTime t =
     year_of_era t + 400 * ((Day t + 719468) div 146097)
       + (if MonthFromTime t \<le> 1 then 1 else 0)"

text \<open>
  \<open>ToZeroPaddedDecimalString\<close>: the decimal digits of a number, with zeros in front up to a
  least length.
\<close>

definition digit_char :: "nat \<Rightarrow> char" where
  "digit_char d = ''0123456789'' ! d"

fun decimal :: "nat \<Rightarrow> string" where
  "decimal n = (if n < 10 then [digit_char n] else decimal (n div 10) @ [digit_char (n mod 10)])"

declare decimal.simps [simp del]

definition ToZeroPaddedDecimalString :: "int \<Rightarrow> nat \<Rightarrow> string" where
  "ToZeroPaddedDecimalString n minLength =
     (let s = decimal (nat n) in replicate (minLength - length s) CHR ''0'' @ s)"

text \<open>
  The year has four digits from 0 to 9999, and a sign and six digits otherwise; the month
  is written from 01.
\<close>

definition toISOString :: "int \<Rightarrow> string" where
  "toISOString t =
     (let y = YearFromTime t in
        if 0 \<le> y \<and> y \<le> 9999 then ToZeroPaddedDecimalString y 4
        else (if y < 0 then ''-'' else ''+'') @ ToZeroPaddedDecimalString \<bar>y\<bar> 6)
     @ ''-'' @ ToZeroPaddedDecimalString (MonthFromTime t + 1) 2
     @ ''-'' @ ToZeroPaddedDecimalString (DateFromTime t) 2
     @ ''T'' @ ToZeroPaddedDecimalString (HourFromTime t) 2
     @ '':'' @ ToZeroPaddedDecimalString (MinFromTime t) 2
     @ '':'' @ ToZeroPaddedDecimalString (SecFromTime t) 2
     @ ''.'' @ ToZeroPaddedDecimalString (msFromTime t) 3
     @ ''Z''"

text \<open>
  What the worker takes from its surroundings. \<open>graphql\<close> is the engine of the
  \<^verbatim>\<open>graphql\<close> package applied to the module's schema and resolvers: the result envelope
  it resolves with, or the error it throws. \<open>Date_now\<close> is the time value of
  \<^verbatim>\<open>new Date()\<close> at the time of the request; a date made from the clock is a valid one,
  so the value lies within 8.64e15 milliseconds of the epoch. \<open>getGraphQLPlayground\<close> is
  the static page of that function; no property below depends on its text.
\<close>

record graphql_args =
  source :: jsval
  variableValues :: jsval
  operationName :: jsval
  contextValue :: resolver_context

record runtime =
  graphql :: "graphql_args \<Rightarrow> js_error + jsval"
  Date_now :: int
  getGraphQLPlayground :: string

text \<open>
  The destructuring \<^verbatim>\<open>const { query, variables, operationName } = await request.json()\<close>:
  a TypeError on \<^verbatim>\<open>null\<close> (valid JSON) and \<^verbatim>\<open>undefined\<close>, in V8's wording.
\<close>

definition cannot_destructure :: "string \<Rightarrow> string \<Rightarrow> js_error" where
  "cannot_destructure what k =
     Thrown TypeError (''Cannot destructure property '' @ [CHR 0x27] @ k @ [CHR 0x27]
       @ '' of '' @ [CHR 0x27] @ ''(intermediate value)'' @ [CHR 0x27] @ '' as it is '' @ what @ ''.'')"

definition post_body_fields :: "jsval \<Rightarrow> js_error + (jsval \<times> jsval \<times> jsval)" where
  "post_body_fields b =
     (if b = JUndefined then Inl (cannot_destructure ''undefined'' ''query'')
      else if b = JNull then Inl (cannot_destructure ''null'' ''query'')
      else
        and_then (get_prop b ''query'') (\<lambda>query.
        and_then (get_prop b ''variables'') (\<lambda>variables.
        and_then (get_prop b ''operationName'') (\<lambda>operationName.
          Inr (query, variables, operationName)))))"

text \<open>The \<^verbatim>\<open>try\<close> block of the POST branch, lines 152 to 162: the result of the engine.\<close>

definition post_try :: "runtime \<Rightarrow> request \<Rightarrow> worker_env \<Rightarrow> js_error + jsval" where
  "post_try rt request e =
     and_then (json request) (\<lambda>b.
     and_then (post_body_fields b) (\<lambda>(query, variables, operationName).
       graphql rt \<lparr>source = query, variableValues = variables,
                   operationName = operationName, contextValue = \<lparr>env = e\<rparr>\<rparr>))"

text \<open>
  The branch \<^verbatim>\<open>if (url.pathname === '/graphql')\<close>, lines 143 to 176: \<open>None\<close> when neither
  inner branch returns and control falls through to the checks below.
\<close>

definition graphql_endpoint :: "runtime \<Rightarrow> request \<Rightarrow> worker_env \<Rightarrow> response option" where
  "graphql_endpoint rt request e =
     (if req_method request = ''GET'' then
        Some (setCorsHeaders (new_Response (Text (getGraphQLPlayground rt)) None
                [(''Content-Type'', ''text/html'')]))
      else if req_method request = ''POST'' then
        Some (case post_try rt request e of
                Inr result \<Rightarrow>
                  setCorsHeaders (new_Response (JsonText result) None
                    [(''Content-Type'', ''application/json'')])
              | Inl error \<Rightarrow>
                  setCorsHeaders (new_Response
                    (JsonText (JObj [(''errors'', JArr [JObj [(''message'', JStr (message error))]])]))
                    (Some 400) [(''Content-Type'', ''application/json'')]))
      else None)"

text \<open>The handler \<^verbatim>\<open>fetch(request, env, ctx)\<close>; \<^verbatim>\<open>ctx\<close> is not used.\<close>

definition fetch :: "runtime \<Rightarrow> request \<Rightarrow> worker_env \<Rightarrow> response" where
  "fetch rt request e =
     (if req_method request = ''OPTIONS'' then setCorsHeaders (new_Response NoBody (Some 200) [])
      else
        (case (if pathname request = ''/graphql'' then graphql_endpoint rt request e else None) of
           Some r \<Rightarrow> r
         | None \<Rightarrow>
             if pathname request = ''/health'' then
               setCorsHeaders (new_Response
                 (JsonText (JObj [(''status'', JStr ''ok''),
                                  (''timestamp'', JStr (toISOString (Date_now rt)))]))
                 None [(''Content-Type'', ''application/json'')])
             else
               setCorsHeaders (new_Response
                 (JsonText (JObj [(''message'', JStr ''GraphQL OpenAI Service''),
                                  (''endpoints'', JObj [(''graphql'', JStr ''/graphql''),
                                                        (''health'', JStr ''/health'')])]))
                 None [(''Content-Type'', ''application/json'')])))"

text \<open>
  The shapes \<^verbatim>\<open>toISOString\<close> produces: \<^verbatim>\<open>YYYY-MM-DDTHH:mm:ss.sssZ\<close>, and the expanded
  form with a sign and six digits for a year outside 0 to 9999. In a pattern, \<^verbatim>\<open>d\<close>
  stands for a digit and every other character for itself.
\<close>

definition is_digit :: "char \<Rightarrow> bool" where
  "is_digit c = (c \<in> set ''0123456789'')"

fun matches :: "string \<Rightarrow> string \<Rightarrow> bool" where
  "matches [] [] = True"
| "matches (p # ps) (c # cs) = ((if p = CHR ''d'' then is_digit c else p = c) \<and> matches ps cs)"
| "matches ps cs = False"

definition iso_8601 :: "string \<Rightarrow> bool" where
  "iso_8601 s =
     (matches ''dddd-dd-ddTdd:dd:dd.dddZ'' s
      \<or> matches ''+dddddd-dd-ddTdd:dd:dd.dddZ'' s
      \<or> matches ''-dddddd-dd-ddTdd:dd:dd.dddZ'' s)"

text \<open>A string of exactly \<open>w\<close> digits.\<close>

definition digit_string :: "nat \<Rightarrow> string \<Rightarrow> bool" where
  "digit_string w s = (length s = w \<and> (\<forall>c \<in> set s. is_digit c))"

section \<open>Example inputs\<close>

text \<open>
  Collaborators that answer with a fixed value: an engine that resolves with a result or
  throws an error, a client whose call resolves with a completion or rejects with an error.
\<close>

definition answering_engine :: "jsval \<Rightarrow> graphql_args \<Rightarrow> js_error + jsval" where
  "answering_engine result args = Inr result"

definition throwing_engine :: "js_error \<Rightarrow> graphql_args \<Rightarrow> js_error + jsval" where
  "throwing_engine err args = Inl err"

definition example_runtime :: runtime where
  "example_runtime =
     \<lparr>graphql = answering_engine
        (JObj [(''data'', JObj [(''health'', JStr ''GraphQL OpenAI Service is running!'')])]),
      Date_now = 1715000000123,
      getGraphQLPlayground = ''<!DOCTYPE html>''\<rparr>"

definition answering_sdk :: "jsval \<Rightarrow> openai_sdk" where
  "answering_sdk completion = \<lparr>new_OpenAI = (\<lambda>key. None), completions_create = (\<lambda>p. Inr completion)\<rparr>"

definition failing_sdk :: "js_error \<Rightarrow> openai_sdk" where
  "failing_sdk err = \<lparr>new_OpenAI = (\<lambda>key. None), completions_create = (\<lambda>p. Inl err)\<rparr>"

text \<open>
  Arguments in the manner of the playground's sample mutations: one with all three
  optional parameters set, one with the schema's defaults for them.
\<close>

definition example_messages :: "jsval list" where
  "example_messages =
     [JObj [(''role'', JStr ''system''), (''content'', JStr ''You are a helpful assistant.'')],
      JObj [(''role'', JStr ''user''), (''content'', JStr ''Hello!'')]]"

definition advanced_args :: chat_args where
  "advanced_args =
     \<lparr>messages = JArr example_messages, model = JStr ''gpt-4'', temperature = JNum (8 / 10),
      max_tokens = JNum 300, top_p = JNum (9 / 10), frequency_penalty = JNum (1 / 10),
      presence_penalty = JNum (1 / 10)\<rparr>"

definition default_args :: chat_args where
  "default_args =
     \<lparr>messages = JArr example_messages, model = JStr ''gpt-3.5-turbo'', temperature = JNum (7 / 10),
      max_tokens = JNum 500, top_p = JNum 1, frequency_penalty = JNum 0,
      presence_penalty = JNum 0\<rparr>"

definition example_context :: resolver_context where
  "example_context = \<lparr>env = \<lparr>OPENAI_API_KEY = JStr ''sk-test''\<rparr>\<rparr>"

definition example_completion :: "jsval \<Rightarrow> jsval" where
  "example_completion usage =
     JObj [(''id'', JStr ''chatcmpl-123''), (''object'', JStr ''chat.completion''),
           (''created'', JNum 1715000000), (''model'', JStr ''gpt-4''),
           (''choices'',
              JArr [JObj [(''index'', JNum 0),
                          (''message'', JObj [(''role'', JStr ''assistant''), (''content'', JStr ''Hi.'')]),
                          (''finish_reason'', JStr ''stop'')]]),
           (''usage'', usage)]"

definition example_usage :: jsval where
  "example_usage =
     JObj [(''prompt_tokens'', JNum 20), (''completion_tokens'', JNum 2), (''total_tokens'', JNum 22)]"

section \<open>Properties of the resolver \<open>chat\<close>\<close>


lemma chat_reaches_upstream:
  "truthy (OPENAI_API_KEY (env ctx)) \<Longrightarrow> new_OpenAI sdk (OPENAI_API_KEY (env ctx)) = None \<Longrightarrow>
   chat sdk a ctx =
     (case and_then (completions_create sdk (requestParams a)) chat_response of
        Inl e \<Rightarrow> Inl (chat_catch e) | Inr v \<Rightarrow> Inr v, [requestParams a])"
  by (simp add: chat_def chat_try_def Let_def split: sum.splits)






text \<open>The pieces of the returned value.\<close>

lemma truthy_get_prop: "truthy u \<Longrightarrow> \<exists>v. get_prop u k = Inr v"
  by (cases u) simp_all

lemma chat_usage_truthy:
  assumes "get_prop completion ''usage'' = Inr usage" "truthy usage"
  shows "\<exists>pt ct tt. get_prop usage ''prompt_tokens'' = Inr pt
           \<and> get_prop usage ''completion_tokens'' = Inr ct
           \<and> get_prop usage ''total_tokens'' = Inr tt
           \<and> chat_usage completion =
               Inr (JObj [(''prompt_tokens'', pt), (''completion_tokens'', ct), (''total_tokens'', tt)])"
proof -
  obtain pt where pt: "get_prop usage ''prompt_tokens'' = Inr pt"
    using truthy_get_prop [OF assms(2)] by blast
  obtain ct where ct: "get_prop usage ''completion_tokens'' = Inr ct"
    using truthy_get_prop [OF assms(2)] by blast
  obtain tt where tt: "get_prop usage ''total_tokens'' = Inr tt"
    using truthy_get_prop [OF assms(2)] by blast
  show ?thesis
    using assms pt ct tt by (simp add: chat_usage_def)
qed

lemma chat_usage_falsy:
  assumes "get_prop completion ''usage'' = Inr usage" "\<not> truthy usage"
  shows "chat_usage completion = Inr JNull"
  using assms by (simp add: chat_usage_def)

lemma get_prop_same_object:
  "get_prop c k = Inr v \<Longrightarrow> \<exists>w. get_prop c k' = Inr w"
  by (cases c) simp_all

lemma chat_response_first_choice:
  assumes ch: "get_prop completion ''choices'' = Inr (JArr (choice # rest))"
      and m: "get_prop choice ''message'' = Inr m"
      and role: "get_prop m ''role'' = Inr role"
      and content: "get_prop m ''content'' = Inr content"
      and u: "chat_usage completion = Inr usage"
  shows "\<exists>cid cobject ccreated cmodel.
           get_prop completion ''id'' = Inr cid \<and> get_prop completion ''object'' = Inr cobject
         \<and> get_prop completion ''created'' = Inr ccreated \<and> get_prop completion ''model'' = Inr cmodel
         \<and> chat_response completion =
             Inr (JObj [(''id'', cid), (''object'', cobject), (''created'', ccreated),
                        (''model'', cmodel),
                        (''message'', JObj [(''role'', role), (''content'', content)]),
                        (''usage'', usage)])"
proof -
  obtain cid where 1: "get_prop completion ''id'' = Inr cid"
    using get_prop_same_object [OF ch] by blast
  obtain cobject where 2: "get_prop completion ''object'' = Inr cobject"
    using get_prop_same_object [OF ch] by blast
  obtain ccreated where 3: "get_prop completion ''created'' = Inr ccreated"
    using get_prop_same_object [OF ch] by blast
  obtain cmodel where 4: "get_prop completion ''model'' = Inr cmodel"
    using get_prop_same_object [OF ch] by blast
  show ?thesis
    using assms 1 2 3 4 by (simp add: chat_response_def)
qed

lemma chat_response_no_choices:
  assumes "get_prop completion ''choices'' = Inr choices"
      and "choices = JUndefined \<or> choices = JArr []"
  shows "\<exists>k. chat_response completion = Inl (cannot_read ''undefined'' k)"
proof -
  obtain cid where 1: "get_prop completion ''id'' = Inr cid"
    using get_prop_same_object [OF assms(1)] by blast
  obtain cobject where 2: "get_prop completion ''object'' = Inr cobject"
    using get_prop_same_object [OF assms(1)] by blast
  obtain ccreated where 3: "get_prop completion ''created'' = Inr ccreated"
    using get_prop_same_object [OF assms(1)] by blast
  obtain cmodel where 4: "get_prop completion ''model'' = Inr cmodel"
    using get_prop_same_object [OF assms(1)] by blast
  from assms(2) show ?thesis
  proof
    assume "choices = JUndefined"
    then have "chat_response completion = Inl (cannot_read ''undefined'' ''0'')"
      using assms(1) by (simp add: chat_response_def)
    then show ?thesis by blast
  next
    assume "choices = JArr []"
    then have "chat_response completion = Inl (cannot_read ''undefined'' ''message'')"
      using assms(1) 1 2 3 4 by (simp add: chat_response_def)
    then show ?thesis by blast
  qed
qed

text \<open>An error raised while the returned value is built is a TypeError of a property read.\<close>

lemma get_prop_error: "get_prop v k = Inl e \<Longrightarrow> error_class e = TypeError"
  by (cases v) (auto simp: cannot_read_def)

lemma get_index0_error: "get_index0 v = Inl e \<Longrightarrow> error_class e = TypeError"
  by (cases v) (auto simp: cannot_read_def)

lemma and_then_Inl:
  "and_then r f = Inl e \<Longrightarrow> r = Inl e \<or> (\<exists>v. r = Inr v \<and> f v = Inl e)"
  by (cases r) simp_all

lemma chat_usage_error: "chat_usage c = Inl e \<Longrightarrow> error_class e = TypeError"
  unfolding chat_usage_def
  by (auto dest!: and_then_Inl dest: get_prop_error split: if_splits)

lemma chat_response_error: "chat_response c = Inl e \<Longrightarrow> error_class e = TypeError"
  unfolding chat_response_def
  by (auto dest!: and_then_Inl dest: get_prop_error get_index0_error chat_usage_error)

section \<open>The shape of \<open>toISOString\<close>\<close>

text \<open>
  Bounds on the fields of a date. Those on the day of the year are loose, and still place
  the month within 0 to 11 and the day of the month within 1 to 31.
\<close>

lemma int_div_bounds:
  fixes x k :: int
  assumes "0 < k"
  shows "k * (x div k) \<le> x" and "x < k * (x div k) + k"
proof -
  have "x = k * (x div k) + x mod k" by simp
  moreover have "0 \<le> x mod k" "x mod k < k" using assms by simp_all
  ultimately show "k * (x div k) \<le> x" and "x < k * (x div k) + k" by linarith+
qed

lemma day_of_era_bounds: "0 \<le> day_of_era t" "day_of_era t \<le> 146096"
  by (simp_all add: day_of_era_def)

lemma year_of_era_bounds: "0 \<le> year_of_era t" "year_of_era t \<le> 400"
proof -
  define doe where "doe = day_of_era t"
  define a where "a = doe div 1460"
  define b where "b = doe div 36524"
  define c where "c = doe div 146096"
  have doe: "0 \<le> doe" "doe \<le> 146096" unfolding doe_def by (rule day_of_era_bounds)+
  have a: "1460 * a \<le> doe" "doe < 1460 * a + 1460"
    unfolding a_def by (rule int_div_bounds, simp)+
  have b: "36524 * b \<le> doe" "doe < 36524 * b + 36524"
    unfolding b_def by (rule int_div_bounds, simp)+
  have c: "146096 * c \<le> doe" "doe < 146096 * c + 146096"
    unfolding c_def by (rule int_div_bounds, simp)+
  have y: "year_of_era t = (doe - a + b - c) div 365"
    by (simp add: year_of_era_def Let_def doe_def a_def b_def c_def)
  have f: "365 * year_of_era t \<le> doe - a + b - c" "doe - a + b - c < 365 * year_of_era t + 365"
    unfolding y by (rule int_div_bounds, simp)+
  show "0 \<le> year_of_era t" using doe a b c f by linarith
  show "year_of_era t \<le> 400" using doe a b c f by linarith
qed

lemma day_of_year_bounds: "- 6 \<le> day_of_year t" "day_of_year t \<le> 370"
proof -
  define doe where "doe = day_of_era t"
  define a where "a = doe div 1460"
  define b where "b = doe div 36524"
  define c where "c = doe div 146096"
  define yoe where "yoe = year_of_era t"
  define q where "q = yoe div 4"
  define r where "r = yoe div 100"
  have doe: "0 \<le> doe" "doe \<le> 146096" unfolding doe_def by (rule day_of_era_bounds)+
  have a: "1460 * a \<le> doe" "doe < 1460 * a + 1460"
    unfolding a_def by (rule int_div_bounds, simp)+
  have b: "36524 * b \<le> doe" "doe < 36524 * b + 36524"
    unfolding b_def by (rule int_div_bounds, simp)+
  have c: "146096 * c \<le> doe" "doe < 146096 * c + 146096"
    unfolding c_def by (rule int_div_bounds, simp)+
  have y: "yoe = (doe - a + b - c) div 365"
    by (simp add: yoe_def year_of_era_def Let_def doe_def a_def b_def c_def)
  have f: "365 * yoe \<le> doe - a + b - c" "doe - a + b - c < 365 * yoe + 365"
    unfolding y by (rule int_div_bounds, simp)+
  have q: "4 * q \<le> yoe" "yoe < 4 * q + 4"
    unfolding q_def by (rule int_div_bounds, simp)+
  have r: "100 * r \<le> yoe" "yoe < 100 * r + 100"
    unfolding r_def by (rule int_div_bounds, simp)+
  have d: "day_of_year t = doe - (365 * yoe + q - r)"
    by (simp add: day_of_year_def Let_def yoe_def q_def r_def doe_def)
  show "- 6 \<le> day_of_year t" unfolding d using doe a b c f q r by linarith
  show "day_of_year t \<le> 370" unfolding d using doe a b c f q r by linarith
qed

lemma month_index_bounds: "- 1 \<le> month_index t" "month_index t \<le> 12"
proof -
  have m: "153 * month_index t \<le> 5 * day_of_year t + 2"
          "5 * day_of_year t + 2 < 153 * month_index t + 153"
    unfolding month_index_def by (rule int_div_bounds, simp)+
  show "- 1 \<le> month_index t" using m day_of_year_bounds [of t] by linarith
  show "month_index t \<le> 12" using m day_of_year_bounds [of t] by linarith
qed

lemma MonthFromTime_bounds: "0 \<le> MonthFromTime t" "MonthFromTime t \<le> 11"
  using month_index_bounds [of t] by (auto simp: MonthFromTime_def Let_def)

lemma DateFromTime_bounds: "1 \<le> DateFromTime t" "DateFromTime t \<le> 31"
proof -
  define mp where "mp = month_index t"
  have m: "153 * mp \<le> 5 * day_of_year t + 2" "5 * day_of_year t + 2 < 153 * mp + 153"
    unfolding mp_def month_index_def by (rule int_div_bounds, simp)+
  have k: "5 * ((153 * mp + 2) div 5) \<le> 153 * mp + 2"
          "153 * mp + 2 < 5 * ((153 * mp + 2) div 5) + 5"
    by (rule int_div_bounds, simp)+
  have d: "DateFromTime t = day_of_year t - (153 * mp + 2) div 5 + 1"
    by (simp add: DateFromTime_def mp_def)
  show "1 \<le> DateFromTime t" unfolding d using m k by linarith
  show "DateFromTime t \<le> 31" unfolding d using m k by linarith
qed

lemma YearFromTime_bounds:
  assumes "- 8640000000000000 \<le> t" and "t \<le> 8640000000000000"
  shows "- 999999 \<le> YearFromTime t" and "YearFromTime t \<le> 999999"
proof -
  define e where "e = (Day t + 719468) div 146097"
  have dy: "86400000 * Day t \<le> t" "t < 86400000 * Day t + 86400000"
    unfolding Day_def by (rule int_div_bounds, simp)+
  have e: "146097 * e \<le> Day t + 719468" "Day t + 719468 < 146097 * e + 146097"
    unfolding e_def by (rule int_div_bounds, simp)+
  have y: "YearFromTime t = year_of_era t + 400 * e + (if MonthFromTime t \<le> 1 then 1 else 0)"
    by (simp add: YearFromTime_def e_def)
  show "- 999999 \<le> YearFromTime t"
    unfolding y using assms dy e year_of_era_bounds [of t] by (auto split: if_splits)
  show "YearFromTime t \<le> 999999"
    unfolding y using assms dy e year_of_era_bounds [of t] by (auto split: if_splits)
qed


text \<open>The digits of a number, and a padded number of known width.\<close>

lemma is_digit_digit_char: "d < 10 \<Longrightarrow> is_digit (digit_char d)"
  unfolding is_digit_def digit_char_def by (rule nth_mem) simp

lemma decimal_digits: "c \<in> set (decimal n) \<Longrightarrow> is_digit c"
proof (induction n arbitrary: c rule: decimal.induct)
  case (1 n)
  show ?case
  proof (cases "n < 10")
    case True
    with "1.prems" show ?thesis
      by (simp add: decimal.simps [of n] is_digit_digit_char)
  next
    case False
    with "1.prems" have "c \<in> set (decimal (n div 10)) \<or> c = digit_char (n mod 10)"
      by (auto simp: decimal.simps [of n])
    then show ?thesis
      using "1.IH" [OF False] by (auto simp: is_digit_digit_char)
  qed
qed

lemma decimal_length: "0 < w \<Longrightarrow> n < 10 ^ w \<Longrightarrow> length (decimal n) \<le> w"
proof (induction w arbitrary: n)
  case 0
  then show ?case by simp
next
  case (Suc w)
  show ?case
  proof (cases "n < 10")
    case True
    then show ?thesis by (simp add: decimal.simps [of n])
  next
    case False
    with Suc.prems have w: "0 < w" by (cases w) simp_all
    from Suc.prems have "n div 10 < 10 ^ w" by (simp add: less_mult_imp_div_less mult.commute)
    then have "length (decimal (n div 10)) \<le> w" using Suc.IH [OF w] by simp
    with False show ?thesis by (simp add: decimal.simps [of n])
  qed
qed

lemma ToZeroPaddedDecimalString_digits:
  assumes "0 \<le> n" and "n < 10 ^ w" and "0 < w"
  shows "digit_string w (ToZeroPaddedDecimalString n w)"
proof -
  have "nat n < 10 ^ w" using assms(1,2) by (simp add: nat_less_iff)
  then have "length (decimal (nat n)) \<le> w" using assms(3) by (simp add: decimal_length)
  moreover have "is_digit CHR ''0''" by (simp add: is_digit_def)
  ultimately show ?thesis
    by (auto simp: digit_string_def ToZeroPaddedDecimalString_def Let_def decimal_digits)
qed

text \<open>Matching the patterns piece by piece.\<close>

lemma digit_string_2: "digit_string 2 s \<Longrightarrow> \<exists>a b. s = [a, b] \<and> is_digit a \<and> is_digit b"
  by (auto simp: digit_string_def numeral_2_eq_2 length_Suc_conv)

lemma digit_string_3:
  "digit_string 3 s \<Longrightarrow> \<exists>a b c. s = [a, b, c] \<and> is_digit a \<and> is_digit b \<and> is_digit c"
  by (auto simp: digit_string_def numeral_3_eq_3 length_Suc_conv)

lemma digit_string_4:
  "digit_string 4 s \<Longrightarrow>
   \<exists>a b c d. s = [a, b, c, d] \<and> is_digit a \<and> is_digit b \<and> is_digit c \<and> is_digit d"
proof -
  assume s: "digit_string 4 s"
  then have "length s = Suc (Suc (Suc (Suc 0)))" by (simp add: digit_string_def)
  then obtain a b c d where "s = [a, b, c, d]" by (auto simp: length_Suc_conv)
  with s show ?thesis by (auto simp: digit_string_def)
qed

lemma digit_string_6:
  "digit_string 6 s \<Longrightarrow>
   \<exists>a b c d e f. s = [a, b, c, d, e, f] \<and> is_digit a \<and> is_digit b \<and> is_digit c
      \<and> is_digit d \<and> is_digit e \<and> is_digit f"
proof -
  assume s: "digit_string 6 s"
  then have "length s = Suc (Suc (Suc (Suc (Suc (Suc 0)))))" by (simp add: digit_string_def)
  then obtain a b c d e f where "s = [a, b, c, d, e, f]" by (auto simp: length_Suc_conv)
  with s show ?thesis by (auto simp: digit_string_def)
qed

lemma matches_time_part:
  assumes "digit_string 2 mo" "digit_string 2 da" "digit_string 2 ho" "digit_string 2 mi"
      "digit_string 2 se" "digit_string 3 ms"
  shows "matches ''-dd-ddTdd:dd:dd.dddZ''
           (''-'' @ mo @ ''-'' @ da @ ''T'' @ ho @ '':'' @ mi @ '':'' @ se @ ''.'' @ ms @ ''Z'')"
proof -
  obtain a1 a2 where 1: "mo = [a1, a2]" "is_digit a1" "is_digit a2"
    using digit_string_2 [OF assms(1)] by blast
  obtain b1 b2 where 2: "da = [b1, b2]" "is_digit b1" "is_digit b2"
    using digit_string_2 [OF assms(2)] by blast
  obtain c1 c2 where 3: "ho = [c1, c2]" "is_digit c1" "is_digit c2"
    using digit_string_2 [OF assms(3)] by blast
  obtain d1 d2 where 4: "mi = [d1, d2]" "is_digit d1" "is_digit d2"
    using digit_string_2 [OF assms(4)] by blast
  obtain e1 e2 where 5: "se = [e1, e2]" "is_digit e1" "is_digit e2"
    using digit_string_2 [OF assms(5)] by blast
  obtain f1 f2 f3 where 6: "ms = [f1, f2, f3]" "is_digit f1" "is_digit f2" "is_digit f3"
    using digit_string_3 [OF assms(6)] by blast
  show ?thesis by (simp add: 1 2 3 4 5 6)
qed

lemma matches_year4:
  assumes "digit_string 4 y" and "matches ''-dd-ddTdd:dd:dd.dddZ'' rest"
  shows "matches ''dddd-dd-ddTdd:dd:dd.dddZ'' (y @ rest)"
proof -
  obtain a b c d where "y = [a, b, c, d]" "is_digit a" "is_digit b" "is_digit c" "is_digit d"
    using digit_string_4 [OF assms(1)] by blast
  then show ?thesis using assms(2) by simp
qed

lemma matches_year6:
  assumes "digit_string 6 y" and "matches ''-dd-ddTdd:dd:dd.dddZ'' rest"
  shows "matches ''+dddddd-dd-ddTdd:dd:dd.dddZ'' (''+'' @ y @ rest)"
    and "matches ''-dddddd-dd-ddTdd:dd:dd.dddZ'' (''-'' @ y @ rest)"
proof -
  obtain a b c d e f where "y = [a, b, c, d, e, f]" "is_digit a" "is_digit b" "is_digit c"
      "is_digit d" "is_digit e" "is_digit f"
    using digit_string_6 [OF assms(1)] by blast
  then show "matches ''+dddddd-dd-ddTdd:dd:dd.dddZ'' (''+'' @ y @ rest)"
    and "matches ''-dddddd-dd-ddTdd:dd:dd.dddZ'' (''-'' @ y @ rest)"
    using assms(2) by simp_all
qed

text \<open>Every valid time value is written in one of the three shapes.\<close>

lemma toISOString_iso_8601:
  assumes "- 8640000000000000 \<le> t" and "t \<le> 8640000000000000"
  shows "iso_8601 (toISOString t)"
proof -
  define rest where "rest =
    ''-'' @ ToZeroPaddedDecimalString (MonthFromTime t + 1) 2
     @ ''-'' @ ToZeroPaddedDecimalString (DateFromTime t) 2
     @ ''T'' @ ToZeroPaddedDecimalString (HourFromTime t) 2
     @ '':'' @ ToZeroPaddedDecimalString (MinFromTime t) 2
     @ '':'' @ ToZeroPaddedDecimalString (SecFromTime t) 2
     @ ''.'' @ ToZeroPaddedDecimalString (msFromTime t) 3
     @ ''Z''"
  have mo: "digit_string 2 (ToZeroPaddedDecimalString (MonthFromTime t + 1) 2)"
    using MonthFromTime_bounds [of t] by (intro ToZeroPaddedDecimalString_digits) simp_all
  have da: "digit_string 2 (ToZeroPaddedDecimalString (DateFromTime t) 2)"
    using DateFromTime_bounds [of t] by (intro ToZeroPaddedDecimalString_digits) simp_all
  have ho: "digit_string 2 (ToZeroPaddedDecimalString (HourFromTime t) 2)"
    by (intro ToZeroPaddedDecimalString_digits) (simp_all add: HourFromTime_def)
  have mi: "digit_string 2 (ToZeroPaddedDecimalString (MinFromTime t) 2)"
    by (intro ToZeroPaddedDecimalString_digits) (simp_all add: MinFromTime_def)
  have se: "digit_string 2 (ToZeroPaddedDecimalString (SecFromTime t) 2)"
    by (intro ToZeroPaddedDecimalString_digits) (simp_all add: SecFromTime_def)
  have ms: "digit_string 3 (ToZeroPaddedDecimalString (msFromTime t) 3)"
    by (intro ToZeroPaddedDecimalString_digits) (simp_all add: msFromTime_def)
  have rest: "matches ''-dd-ddTdd:dd:dd.dddZ'' rest"
    unfolding rest_def by (rule matches_time_part [OF mo da ho mi se ms])
  have iso: "toISOString t =
      (if 0 \<le> YearFromTime t \<and> YearFromTime t \<le> 9999
       then ToZeroPaddedDecimalString (YearFromTime t) 4 @ rest
       else if YearFromTime t < 0 then ''-'' @ ToZeroPaddedDecimalString \<bar>YearFromTime t\<bar> 6 @ rest
       else ''+'' @ ToZeroPaddedDecimalString \<bar>YearFromTime t\<bar> 6 @ rest)"
    by (simp add: toISOString_def rest_def Let_def)
  show ?thesis
  proof (cases "0 \<le> YearFromTime t \<and> YearFromTime t \<le> 9999")
    case True
    then have "digit_string 4 (ToZeroPaddedDecimalString (YearFromTime t) 4)"
      by (intro ToZeroPaddedDecimalString_digits) simp_all
    then have "matches ''dddd-dd-ddTdd:dd:dd.dddZ'' (toISOString t)"
      using True rest by (simp add: iso matches_year4)
    then show ?thesis by (simp add: iso_8601_def)
  next
    case False
    have "digit_string 6 (ToZeroPaddedDecimalString \<bar>YearFromTime t\<bar> 6)"
      using YearFromTime_bounds [OF assms] by (intro ToZeroPaddedDecimalString_digits) simp_all
    then have "matches ''+dddddd-dd-ddTdd:dd:dd.dddZ''
                 (''+'' @ ToZeroPaddedDecimalString \<bar>YearFromTime t\<bar> 6 @ rest)"
      and "matches ''-dddddd-dd-ddTdd:dd:dd.dddZ''
                 (''-'' @ ToZeroPaddedDecimalString \<bar>YearFromTime t\<bar> 6 @ rest)"
      using rest by (rule matches_year6)+
    with False show ?thesis
      unfolding iso_8601_def iso by (cases "YearFromTime t < 0") simp_all
  qed
qed

text \<open>The time value of the examples, written out.\<close>

lemma toISOString_example: "toISOString 1715000000123 = ''2024-05-06T12:53:20.123Z''"
  by code_simp

section \<open>Properties of the dispatch layer\<close>

lemma map_of_headers_set: "map_of (headers_set hs k v) = (map_of hs)(k \<mapsto> v)"
  by (simp add: headers_set_def update_conv')

lemma setCorsHeaders_status [simp]: "status (setCorsHeaders r) = status r"
  by (simp add: setCorsHeaders_def Let_def)

lemma setCorsHeaders_body [simp]: "body (setCorsHeaders r) = body r"
  by (simp add: setCorsHeaders_def Let_def)

lemma setCorsHeaders_headers:
  "map_of (headers (setCorsHeaders r)) ''Access-Control-Allow-Origin'' = Some ''*''"
  "map_of (headers (setCorsHeaders r)) ''Access-Control-Allow-Methods'' = Some ''GET, POST, OPTIONS''"
  "map_of (headers (setCorsHeaders r)) ''Access-Control-Allow-Headers'' = Some ''Content-Type, Authorization''"
  by (simp_all add: setCorsHeaders_def Let_def map_of_headers_set)

lemma graphql_endpoint_cors:
  "graphql_endpoint rt request e = Some r \<Longrightarrow> \<exists>r'. r = setCorsHeaders r'"
  by (auto simp: graphql_endpoint_def split: if_splits sum.splits)

lemma fetch_is_setCorsHeaders: "\<exists>r'. fetch rt request e = setCorsHeaders r'"
proof (cases "req_method request = ''OPTIONS''")
  case True
  then have "fetch rt request e = setCorsHeaders (new_Response NoBody (Some 200) [])"
    by (simp add: fetch_def)
  then show ?thesis by blast
next
  case False
  show ?thesis
  proof (cases "if pathname request = ''/graphql'' then graphql_endpoint rt request e else None")
    case None
    with False have "fetch rt request e =
      (if pathname request = ''/health'' then
         setCorsHeaders (new_Response
           (JsonText (JObj [(''status'', JStr ''ok''),
                            (''timestamp'', JStr (toISOString (Date_now rt)))]))
           None [(''Content-Type'', ''application/json'')])
       else
         setCorsHeaders (new_Response
           (JsonText (JObj [(''message'', JStr ''GraphQL OpenAI Service''),
                            (''endpoints'', JObj [(''graphql'', JStr ''/graphql''),
                                                  (''health'', JStr ''/health'')])]))
           None [(''Content-Type'', ''application/json'')]))"
      by (simp add: fetch_def)
    then show ?thesis by (cases "pathname request = ''/health''") auto
  next
    case (Some r)
    then have "graphql_endpoint rt request e = Some r" by (simp split: if_splits)
    then obtain r' where r: "r = setCorsHeaders r'" using graphql_endpoint_cors by blast
    from False Some have "fetch rt request e = r" by (simp add: fetch_def)
    with r show ?thesis by blast
  qed
qed

lemma fetch_post:
  "req_method request = ''POST'' \<Longrightarrow> pathname request = ''/graphql'' \<Longrightarrow>
   fetch rt request e =
     (case post_try rt request e of
        Inr result \<Rightarrow>
          setCorsHeaders (new_Response (JsonText result) None [(''Content-Type'', ''application/json'')])
      | Inl error \<Rightarrow>
          setCorsHeaders (new_Response
            (JsonText (JObj [(''errors'', JArr [JObj [(''message'', JStr (message error))]])]))
            (Some 400) [(''Content-Type'', ''application/json'')]))"
  by (simp add: fetch_def graphql_endpoint_def)

text \<open>Unfolding the example inputs and the resolver on concrete values.\<close>

lemmas example_defs =
  advanced_args_def default_args_def example_context_def example_completion_def
  example_usage_def example_messages_def answering_sdk_def failing_sdk_def
  example_runtime_def answering_engine_def throwing_engine_def

lemmas chat_defs =
  chat_def chat_try_def chat_catch_def chat_response_def chat_usage_def requestParams_def
  set_prop_def has_prop_def instanceof_APIError_def cannot_read_def Let_def

section \<open>The claims\<close>

text \<open>
  C8. The health operation returns the same fixed string for every invocation and every
  context, and never an error.
\<close>

theorem health_fixed:
  "health args ctx = Inr ''GraphQL OpenAI Service is running!''
   \<and> health args ctx = health args' ctx'"
  by (simp add: health_def)



text \<open>
  C2, as amended. When the upstream call fails, \<open>chat\<close> throws an error (which the
  engine reports as a GraphQL error) and returns no value. Its message is
  \<open>OpenAI API Error: \<close> followed by the failure's message when the failure is an instance
  of \<open>OpenAI.APIError\<close>, which the client's status errors are and its connection errors as
  well, so that a network failure is answered so. It is \<open>Failed to call OpenAI API: \<close>
  followed by the failure's message for every other failure: a rejection of another class,
  and a completion of a shape that makes building the returned value fail. The call was
  made once.
\<close>

theorem chat_upstream_failure:
  assumes "truthy (OPENAI_API_KEY (env ctx))"
      and "new_OpenAI sdk (OPENAI_API_KEY (env ctx)) = None"
  shows "(completions_create sdk (requestParams a) = Inl e \<and> instanceof_APIError e \<longrightarrow>
            fst (chat sdk a ctx) = Inl (Thrown Error (''OpenAI API Error: '' @ message e)))
       \<and> (completions_create sdk (requestParams a) = Inl e \<and> error_class e = APIConnectionError \<longrightarrow>
            fst (chat sdk a ctx) = Inl (Thrown Error (''OpenAI API Error: '' @ message e)))
       \<and> (completions_create sdk (requestParams a) = Inl e \<and> \<not> instanceof_APIError e \<longrightarrow>
            fst (chat sdk a ctx) = Inl (Thrown Error (''Failed to call OpenAI API: '' @ message e)))
       \<and> (completions_create sdk (requestParams a) = Inr completion
            \<and> chat_response completion = Inl e \<longrightarrow>
            fst (chat sdk a ctx) = Inl (Thrown Error (''Failed to call OpenAI API: '' @ message e)))
       \<and> snd (chat sdk a ctx) = [requestParams a]"
proof -
  have "chat_response completion = Inl e \<Longrightarrow> \<not> instanceof_APIError e"
    using chat_response_error [of completion e] by (simp add: instanceof_APIError_def)
  then show ?thesis
    using assms by (auto simp: chat_reaches_upstream chat_catch_def instanceof_APIError_def)
qed

text \<open>
  A rate-limit error, a connection error, the SyntaxError of a response body that is not
  the JSON its content type announces, and a completion without \<open>choices\<close>.
\<close>

theorem chat_upstream_failure_witness:
  "fst (chat (failing_sdk (Thrown APIError ''429 Rate limit reached'')) default_args example_context)
     = Inl (Thrown Error ''OpenAI API Error: 429 Rate limit reached'')
   \<and> fst (chat (failing_sdk (Thrown APIConnectionError ''Connection error.'')) default_args example_context)
     = Inl (Thrown Error ''OpenAI API Error: Connection error.'')
   \<and> fst (chat (failing_sdk (Thrown SyntaxError ''Unexpected end of JSON input'')) default_args
          example_context)
     = Inl (Thrown Error ''Failed to call OpenAI API: Unexpected end of JSON input'')
   \<and> chat_response (JObj [(''id'', JStr ''chatcmpl-123'')]) = Inl (cannot_read ''undefined'' ''0'')
   \<and> fst (chat (answering_sdk (JObj [(''id'', JStr ''chatcmpl-123'')])) default_args example_context)
     = Inl (Thrown Error (''Failed to call OpenAI API: '' @ message (cannot_read ''undefined'' ''0'')))"
  using chat_upstream_failure [where ctx = example_context
          and sdk = "failing_sdk (Thrown APIError ''429 Rate limit reached'')"
          and a = default_args and e = "Thrown APIError ''429 Rate limit reached''"
          and completion = JNull]
        chat_upstream_failure [where ctx = example_context
          and sdk = "failing_sdk (Thrown APIConnectionError ''Connection error.'')"
          and a = default_args and e = "Thrown APIConnectionError ''Connection error.''"
          and completion = JNull]
        chat_upstream_failure [where ctx = example_context
          and sdk = "failing_sdk (Thrown SyntaxError ''Unexpected end of JSON input'')"
          and a = default_args and e = "Thrown SyntaxError ''Unexpected end of JSON input''"
          and completion = JNull]
        chat_upstream_failure [where ctx = example_context
          and sdk = "answering_sdk (JObj [(''id'', JStr ''chatcmpl-123'')])"
          and a = default_args and e = "cannot_read ''undefined'' ''0''"
          and completion = "JObj [(''id'', JStr ''chatcmpl-123'')]"]
  by (simp add: example_defs instanceof_APIError_def chat_response_def)

text \<open>
  C2 as stated fails. A network failure reaches the resolver as the client's
  \<open>APIConnectionError\<close>, an instance of \<open>OpenAI.APIError\<close>: the message thrown starts
  with \<open>OpenAI API Error: \<close>, not with \<open>Failed to call OpenAI API: \<close>.
\<close>

theorem chat_network_failure_counterexample:
  "completions_create (failing_sdk (Thrown APIConnectionError ''Connection error.''))
       (requestParams default_args)
     = Inl (Thrown APIConnectionError ''Connection error.'')
   \<and> fst (chat (failing_sdk (Thrown APIConnectionError ''Connection error.'')) default_args
          example_context)
     = Inl (Thrown Error ''OpenAI API Error: Connection error.'')
   \<and> fst (chat (failing_sdk (Thrown APIConnectionError ''Connection error.'')) default_args
          example_context)
     \<noteq> Inl (Thrown Error ''Failed to call OpenAI API: Connection error.'')"
  by (simp add: example_defs chat_defs)

text \<open>
  C3. When the upstream call succeeds with a completion whose \<open>choices\<close> array has a first
  element with a message, \<open>chat\<close> returns an object whose \<open>id\<close>, \<open>object\<close>,
  \<open>created\<close> and \<open>model\<close> are the completion's, whose \<open>message\<close> is the role and
  content of the first choice's message, and whose \<open>usage\<close> is the three token counts of
  the completion's usage when there is one and \<open>null\<close> when there is none.
\<close>

theorem chat_success_mapping:
  assumes "truthy (OPENAI_API_KEY (env ctx))"
      and "new_OpenAI sdk (OPENAI_API_KEY (env ctx)) = None"
      and "completions_create sdk (requestParams a) = Inr completion"
      and ch: "get_prop completion ''choices'' = Inr (JArr (choice # rest))"
      and m: "get_prop choice ''message'' = Inr m"
      and role: "get_prop m ''role'' = Inr role"
      and content: "get_prop m ''content'' = Inr content"
      and usage: "get_prop completion ''usage'' = Inr usage"
  shows "\<exists>r. fst (chat sdk a ctx) = Inr r
       \<and> get_prop r ''id'' = get_prop completion ''id''
       \<and> get_prop r ''object'' = get_prop completion ''object''
       \<and> get_prop r ''created'' = get_prop completion ''created''
       \<and> get_prop r ''model'' = get_prop completion ''model''
       \<and> get_prop r ''message'' = Inr (JObj [(''role'', role), (''content'', content)])
       \<and> (truthy usage \<longrightarrow>
            (\<exists>pt ct tt. get_prop usage ''prompt_tokens'' = Inr pt
               \<and> get_prop usage ''completion_tokens'' = Inr ct
               \<and> get_prop usage ''total_tokens'' = Inr tt
               \<and> get_prop r ''usage'' =
                   Inr (JObj [(''prompt_tokens'', pt), (''completion_tokens'', ct), (''total_tokens'', tt)])))
       \<and> (\<not> truthy usage \<longrightarrow> get_prop r ''usage'' = Inr JNull)"
proof -
  obtain u where u: "chat_usage completion = Inr u"
    and ut: "truthy usage \<longrightarrow>
            (\<exists>pt ct tt. get_prop usage ''prompt_tokens'' = Inr pt
               \<and> get_prop usage ''completion_tokens'' = Inr ct
               \<and> get_prop usage ''total_tokens'' = Inr tt
               \<and> u = JObj [(''prompt_tokens'', pt), (''completion_tokens'', ct), (''total_tokens'', tt)])"
    and uf: "\<not> truthy usage \<longrightarrow> u = JNull"
    using chat_usage_truthy [OF usage] chat_usage_falsy [OF usage] by (cases "truthy usage") auto
  obtain cid cobject ccreated cmodel where
    c: "get_prop completion ''id'' = Inr cid" "get_prop completion ''object'' = Inr cobject"
       "get_prop completion ''created'' = Inr ccreated" "get_prop completion ''model'' = Inr cmodel"
    and r: "chat_response completion =
             Inr (JObj [(''id'', cid), (''object'', cobject), (''created'', ccreated),
                        (''model'', cmodel),
                        (''message'', JObj [(''role'', role), (''content'', content)]),
                        (''usage'', u)])"
    using chat_response_first_choice [OF ch m role content u] by blast
  have "fst (chat sdk a ctx) =
          Inr (JObj [(''id'', cid), (''object'', cobject), (''created'', ccreated),
                        (''model'', cmodel),
                        (''message'', JObj [(''role'', role), (''content'', content)]),
                        (''usage'', u)])"
    using assms(1-3) r by (simp add: chat_reaches_upstream)
  then show ?thesis
    using c ut uf by simp
qed

text \<open>A completion with usage, and the same completion without.\<close>

theorem chat_success_mapping_witness:
  "fst (chat (answering_sdk (example_completion example_usage)) default_args example_context)
     = Inr (JObj [(''id'', JStr ''chatcmpl-123''), (''object'', JStr ''chat.completion''),
                  (''created'', JNum 1715000000), (''model'', JStr ''gpt-4''),
                  (''message'', JObj [(''role'', JStr ''assistant''), (''content'', JStr ''Hi.'')]),
                  (''usage'', example_usage)])
   \<and> fst (chat (answering_sdk (example_completion JUndefined)) default_args example_context)
     = Inr (JObj [(''id'', JStr ''chatcmpl-123''), (''object'', JStr ''chat.completion''),
                  (''created'', JNum 1715000000), (''model'', JStr ''gpt-4''),
                  (''message'', JObj [(''role'', JStr ''assistant''), (''content'', JStr ''Hi.'')]),
                  (''usage'', JNull)])"
  using chat_success_mapping [of example_context "answering_sdk (example_completion example_usage)"
          default_args "example_completion example_usage"
          "JObj [(''index'', JNum 0),
                 (''message'', JObj [(''role'', JStr ''assistant''), (''content'', JStr ''Hi.'')]),
                 (''finish_reason'', JStr ''stop'')]" "[]"
          "JObj [(''role'', JStr ''assistant''), (''content'', JStr ''Hi.'')]"
          "JStr ''assistant''" "JStr ''Hi.''" example_usage]
        chat_success_mapping [of example_context "answering_sdk (example_completion JUndefined)"
          default_args "example_completion JUndefined"
          "JObj [(''index'', JNum 0),
                 (''message'', JObj [(''role'', JStr ''assistant''), (''content'', JStr ''Hi.'')]),
                 (''finish_reason'', JStr ''stop'')]" "[]"
          "JObj [(''role'', JStr ''assistant''), (''content'', JStr ''Hi.'')]"
          "JStr ''assistant''" "JStr ''Hi.''" JUndefined]
  by (simp add: example_defs chat_defs)

text \<open>
  C4. With no credential configured, \<open>chat\<close> throws an error whose message contains
  \<open>API key\<close>, and nothing is sent upstream.
\<close>

theorem chat_missing_key:
  assumes "\<not> truthy (OPENAI_API_KEY (env ctx))"
  shows "fst (chat sdk a ctx) = Inl (Thrown Error ''OpenAI API key is not configured'')
       \<and> sublist ''API key'' ''OpenAI API key is not configured''
       \<and> snd (chat sdk a ctx) = []"
proof -
  have "''OpenAI API key is not configured'' = ''OpenAI '' @ ''API key'' @ '' is not configured''"
    by simp
  then have "sublist ''API key'' ''OpenAI API key is not configured''"
    unfolding sublist_def by blast
  then show ?thesis
    using assms by (simp add: chat_def)
qed

text \<open>No binding at all, and an empty string.\<close>

theorem chat_missing_key_witness:
  "chat (answering_sdk (example_completion example_usage)) default_args
        \<lparr>env = \<lparr>OPENAI_API_KEY = JUndefined\<rparr>\<rparr>
     = (Inl (Thrown Error ''OpenAI API key is not configured''), [])
   \<and> chat (answering_sdk (example_completion example_usage)) default_args
        \<lparr>env = \<lparr>OPENAI_API_KEY = JStr ''''\<rparr>\<rparr>
     = (Inl (Thrown Error ''OpenAI API key is not configured''), [])"
  using chat_missing_key [of "\<lparr>env = \<lparr>OPENAI_API_KEY = JUndefined\<rparr>\<rparr>"
          "answering_sdk (example_completion example_usage)" default_args]
        chat_missing_key [of "\<lparr>env = \<lparr>OPENAI_API_KEY = JStr ''''\<rparr>\<rparr>"
          "answering_sdk (example_completion example_usage)" default_args]
  by (simp add: prod_eq_iff)



text \<open>
  C10. When the upstream call succeeds but the completion has no \<open>choices\<close>, or an empty
  array, \<open>chat\<close> returns no value: the TypeError of the property access is caught and
  \<open>chat\<close> throws an \<open>Error\<close> whose message starts with \<open>Failed to call OpenAI API: \<close>.
\<close>

theorem chat_no_choices:
  assumes "truthy (OPENAI_API_KEY (env ctx))"
      and "new_OpenAI sdk (OPENAI_API_KEY (env ctx)) = None"
      and "completions_create sdk (requestParams a) = Inr completion"
      and "get_prop completion ''choices'' = Inr choices"
      and "choices = JUndefined \<or> choices = JArr []"
  shows "\<exists>e. fst (chat sdk a ctx) = Inl e \<and> error_class e = Error
           \<and> prefix ''Failed to call OpenAI API: '' (message e)"
proof -
  obtain k where "chat_response completion = Inl (cannot_read ''undefined'' k)"
    using chat_response_no_choices [OF assms(4,5)] by blast
  then have "fst (chat sdk a ctx) = Inl (chat_catch (cannot_read ''undefined'' k))"
    using assms(1-3) by (simp add: chat_reaches_upstream)
  then show ?thesis
    by (simp add: chat_catch_def cannot_read_def instanceof_APIError_def)
qed

text \<open>An empty \<open>choices\<close> array, and none.\<close>

theorem chat_no_choices_witness:
  "fst (chat (answering_sdk (JObj [(''id'', JStr ''chatcmpl-123''), (''choices'', JArr [])]))
          default_args example_context)
     = Inl (Thrown Error (''Failed to call OpenAI API: '' @ message (cannot_read ''undefined'' ''message'')))
   \<and> fst (chat (answering_sdk (JObj [(''id'', JStr ''chatcmpl-123'')])) default_args example_context)
     = Inl (Thrown Error (''Failed to call OpenAI API: '' @ message (cannot_read ''undefined'' ''0'')))"
  using chat_no_choices [of example_context
          "answering_sdk (JObj [(''id'', JStr ''chatcmpl-123''), (''choices'', JArr [])])"
          default_args "JObj [(''id'', JStr ''chatcmpl-123''), (''choices'', JArr [])]" "JArr []"]
        chat_no_choices [of example_context
          "answering_sdk (JObj [(''id'', JStr ''chatcmpl-123'')])"
          default_args "JObj [(''id'', JStr ''chatcmpl-123'')]" JUndefined]
  by (simp add: example_defs chat_defs)

text \<open>
  C5. On a POST to \<open>/graphql\<close>: a body that is not valid JSON, and an engine that
  throws, give status 400 and the body \<open>{errors: [{message}]}\<close> with the error's message;
  an engine that returns its result envelope (where the errors of resolvers are reported)
  gives status 200 and that envelope as the body.
\<close>

theorem post_graphql_errors:
  assumes "req_method request = ''POST''" and "pathname request = ''/graphql''"
  shows "(json request = Inl err \<longrightarrow>
            status (fetch rt request e) = 400
          \<and> body (fetch rt request e)
              = JsonText (JObj [(''errors'', JArr [JObj [(''message'', JStr (message err))]])]))
       \<and> (json request = Inr b \<and> post_body_fields b = Inr (query, variables, opname)
          \<and> graphql rt \<lparr>source = query, variableValues = variables, operationName = opname,
                         contextValue = \<lparr>env = e\<rparr>\<rparr> = Inl err \<longrightarrow>
            status (fetch rt request e) = 400
          \<and> body (fetch rt request e)
              = JsonText (JObj [(''errors'', JArr [JObj [(''message'', JStr (message err))]])]))
       \<and> (json request = Inr b \<and> post_body_fields b = Inr (query, variables, opname)
          \<and> graphql rt \<lparr>source = query, variableValues = variables, operationName = opname,
                         contextValue = \<lparr>env = e\<rparr>\<rparr> = Inr result \<longrightarrow>
            status (fetch rt request e) = 200 \<and> body (fetch rt request e) = JsonText result)"
  by (simp add: fetch_post [OF assms] post_try_def new_Response_def)

text \<open>A body that is not JSON, an engine that throws, and an engine that reports a resolver's error.\<close>

theorem post_graphql_errors_witness:
  "status (fetch example_runtime
       \<lparr>req_method = ''POST'', pathname = ''/graphql'',
        json = Inl (Thrown SyntaxError ''Unexpected token o in JSON at position 1'')\<rparr>
       \<lparr>OPENAI_API_KEY = JStr ''sk-test''\<rparr>) = 400
   \<and> body (fetch example_runtime
       \<lparr>req_method = ''POST'', pathname = ''/graphql'',
        json = Inl (Thrown SyntaxError ''Unexpected token o in JSON at position 1'')\<rparr>
       \<lparr>OPENAI_API_KEY = JStr ''sk-test''\<rparr>)
      = JsonText (JObj [(''errors'',
          JArr [JObj [(''message'', JStr ''Unexpected token o in JSON at position 1'')]])])
   \<and> status (fetch (example_runtime\<lparr>graphql := throwing_engine (Thrown Error ''Expected a schema.'')\<rparr>)
       \<lparr>req_method = ''POST'', pathname = ''/graphql'',
        json = Inr (JObj [(''query'', JStr ''{ health }'')])\<rparr>
       \<lparr>OPENAI_API_KEY = JStr ''sk-test''\<rparr>) = 400
   \<and> status (fetch
       (example_runtime\<lparr>graphql := answering_engine
          (JObj [(''errors'', JArr [JObj [(''message'', JStr ''OpenAI API key is not configured'')]]),
                 (''data'', JNull)])\<rparr>)
       \<lparr>req_method = ''POST'', pathname = ''/graphql'',
        json = Inr (JObj [(''query'', JStr ''mutation { chat(messages: []) { id } }'')])\<rparr>
       \<lparr>OPENAI_API_KEY = JUndefined\<rparr>) = 200
   \<and> body (fetch
       (example_runtime\<lparr>graphql := answering_engine
          (JObj [(''errors'', JArr [JObj [(''message'', JStr ''OpenAI API key is not configured'')]]),
                 (''data'', JNull)])\<rparr>)
       \<lparr>req_method = ''POST'', pathname = ''/graphql'',
        json = Inr (JObj [(''query'', JStr ''mutation { chat(messages: []) { id } }'')])\<rparr>
       \<lparr>OPENAI_API_KEY = JUndefined\<rparr>)
      = JsonText (JObj [(''errors'', JArr [JObj [(''message'', JStr ''OpenAI API key is not configured'')]]),
                        (''data'', JNull)])"
  using post_graphql_errors [of
          "\<lparr>req_method = ''POST'', pathname = ''/graphql'',
            json = Inl (Thrown SyntaxError ''Unexpected token o in JSON at position 1'')\<rparr>"
          "Thrown SyntaxError ''Unexpected token o in JSON at position 1''"
          example_runtime "\<lparr>OPENAI_API_KEY = JStr ''sk-test''\<rparr>"]
        post_graphql_errors [of
          "\<lparr>req_method = ''POST'', pathname = ''/graphql'',
            json = Inr (JObj [(''query'', JStr ''{ health }'')])\<rparr>"
          "Thrown Error ''Expected a schema.''"
          "example_runtime\<lparr>graphql := throwing_engine (Thrown Error ''Expected a schema.'')\<rparr>"
          "\<lparr>OPENAI_API_KEY = JStr ''sk-test''\<rparr>"
          "JObj [(''query'', JStr ''{ health }'')]" "JStr ''{ health }''" JUndefined JUndefined]
        post_graphql_errors [of
          "\<lparr>req_method = ''POST'', pathname = ''/graphql'',
            json = Inr (JObj [(''query'', JStr ''mutation { chat(messages: []) { id } }'')])\<rparr>"
          "Thrown Error ''none''"
          "example_runtime\<lparr>graphql := answering_engine
             (JObj [(''errors'', JArr [JObj [(''message'', JStr ''OpenAI API key is not configured'')]]),
                    (''data'', JNull)])\<rparr>"
          "\<lparr>OPENAI_API_KEY = JUndefined\<rparr>"
          "JObj [(''query'', JStr ''mutation { chat(messages: []) { id } }'')]"
          "JStr ''mutation { chat(messages: []) { id } }''" JUndefined JUndefined
          "JObj [(''errors'', JArr [JObj [(''message'', JStr ''OpenAI API key is not configured'')]]),
                 (''data'', JNull)]"]
  by (simp add: example_defs post_body_fields_def)

text \<open>
  C6. \<open>fetch\<close> routes by path and method as the table states, its rows taken in the order
  the handler tests them. An OPTIONS request is answered with an empty response of status
  200, whatever the path. Otherwise: a GET to \<open>/graphql\<close> is answered with the playground
  page (a POST is the subject of C5); a request to \<open>/health\<close>, a GET among them, is answered
  with status 200 and the body \<open>{status: "ok", timestamp}\<close>, where the timestamp is the
  string \<open>toISOString\<close> gives for the time of the request and has the shape of an ISO 8601
  date and time; every other request, whatever its path and method, is answered with the
  static description of the endpoints.
\<close>

theorem fetch_routes:
  assumes "- 8640000000000000 \<le> Date_now rt" and "Date_now rt \<le> 8640000000000000"
  shows "(req_method request = ''OPTIONS'' \<longrightarrow>
            status (fetch rt request e) = 200 \<and> body (fetch rt request e) = NoBody)
       \<and> (req_method request = ''GET'' \<and> pathname request = ''/graphql'' \<longrightarrow>
            status (fetch rt request e) = 200
          \<and> body (fetch rt request e) = Text (getGraphQLPlayground rt))
       \<and> (req_method request \<noteq> ''OPTIONS'' \<and> pathname request = ''/health'' \<longrightarrow>
            status (fetch rt request e) = 200
          \<and> body (fetch rt request e)
              = JsonText (JObj [(''status'', JStr ''ok''),
                                (''timestamp'', JStr (toISOString (Date_now rt)))])
          \<and> iso_8601 (toISOString (Date_now rt)))
       \<and> (req_method request \<noteq> ''OPTIONS'' \<and> pathname request \<noteq> ''/health''
          \<and> (pathname request = ''/graphql'' \<longrightarrow>
                req_method request \<noteq> ''GET'' \<and> req_method request \<noteq> ''POST'') \<longrightarrow>
            status (fetch rt request e) = 200
          \<and> body (fetch rt request e)
              = JsonText (JObj [(''message'', JStr ''GraphQL OpenAI Service''),
                                (''endpoints'', JObj [(''graphql'', JStr ''/graphql''),
                                                      (''health'', JStr ''/health'')])]))"
proof -
  have "iso_8601 (toISOString (Date_now rt))"
    using assms by (rule toISOString_iso_8601)
  then show ?thesis
    by (simp add: fetch_def graphql_endpoint_def new_Response_def)
qed

text \<open>
  A GET to \<open>/health\<close> at 2024-05-06T12:53:20.123Z, a DELETE to \<open>/\<close>, a PUT to
  \<open>/graphql\<close> and an OPTIONS to \<open>/\<close>.
\<close>

theorem fetch_routes_witness:
  "- 8640000000000000 \<le> Date_now example_runtime \<and> Date_now example_runtime \<le> 8640000000000000
   \<and> status (fetch example_runtime
        \<lparr>req_method = ''GET'', pathname = ''/health'',
         json = Inl (Thrown SyntaxError ''Unexpected end of JSON input'')\<rparr>
        \<lparr>OPENAI_API_KEY = JStr ''sk-test''\<rparr>) = 200
   \<and> body (fetch example_runtime
        \<lparr>req_method = ''GET'', pathname = ''/health'',
         json = Inl (Thrown SyntaxError ''Unexpected end of JSON input'')\<rparr>
        \<lparr>OPENAI_API_KEY = JStr ''sk-test''\<rparr>)
       = JsonText (JObj [(''status'', JStr ''ok''), (''timestamp'', JStr ''2024-05-06T12:53:20.123Z'')])
   \<and> iso_8601 ''2024-05-06T12:53:20.123Z''
   \<and> body (fetch example_runtime
        \<lparr>req_method = ''DELETE'', pathname = ''/'',
         json = Inl (Thrown SyntaxError ''Unexpected end of JSON input'')\<rparr>
        \<lparr>OPENAI_API_KEY = JStr ''sk-test''\<rparr>)
       = JsonText (JObj [(''message'', JStr ''GraphQL OpenAI Service''),
                         (''endpoints'', JObj [(''graphql'', JStr ''/graphql''),
                                               (''health'', JStr ''/health'')])])
   \<and> body (fetch example_runtime
        \<lparr>req_method = ''PUT'', pathname = ''/graphql'',
         json = Inr (JObj [(''query'', JStr ''{ health }'')])\<rparr>
        \<lparr>OPENAI_API_KEY = JStr ''sk-test''\<rparr>)
       = JsonText (JObj [(''message'', JStr ''GraphQL OpenAI Service''),
                         (''endpoints'', JObj [(''graphql'', JStr ''/graphql''),
                                               (''health'', JStr ''/health'')])])
   \<and> body (fetch example_runtime
        \<lparr>req_method = ''OPTIONS'', pathname = ''/'',
         json = Inl (Thrown SyntaxError ''Unexpected end of JSON input'')\<rparr>
        \<lparr>OPENAI_API_KEY = JStr ''sk-test''\<rparr>) = NoBody"
proof -
  have lo: "- 8640000000000000 \<le> Date_now example_runtime"
    and hi: "Date_now example_runtime \<le> 8640000000000000"
    by (simp_all add: example_runtime_def)
  have ts: "toISOString (Date_now example_runtime) = ''2024-05-06T12:53:20.123Z''"
    by (simp add: example_runtime_def toISOString_example)
  show ?thesis
    using lo hi
      fetch_routes [OF lo hi, of
        "\<lparr>req_method = ''GET'', pathname = ''/health'',
          json = Inl (Thrown SyntaxError ''Unexpected end of JSON input'')\<rparr>"
        "\<lparr>OPENAI_API_KEY = JStr ''sk-test''\<rparr>"]
      fetch_routes [OF lo hi, of
        "\<lparr>req_method = ''DELETE'', pathname = ''/'',
          json = Inl (Thrown SyntaxError ''Unexpected end of JSON input'')\<rparr>"
        "\<lparr>OPENAI_API_KEY = JStr ''sk-test''\<rparr>"]
      fetch_routes [OF lo hi, of
        "\<lparr>req_method = ''PUT'', pathname = ''/graphql'',
          json = Inr (JObj [(''query'', JStr ''{ health }'')])\<rparr>"
        "\<lparr>OPENAI_API_KEY = JStr ''sk-test''\<rparr>"]
      fetch_routes [OF lo hi, of
        "\<lparr>req_method = ''OPTIONS'', pathname = ''/'',
          json = Inl (Thrown SyntaxError ''Unexpected end of JSON input'')\<rparr>"
        "\<lparr>OPENAI_API_KEY = JStr ''sk-test''\<rparr>"]
    by (simp add: ts)
qed

text \<open>
  C7. Every response of \<open>fetch\<close> carries the three CORS headers, whatever the request and
  whatever the engine and the body did.
\<close>

theorem fetch_cors_headers:
  "map_of (headers (fetch rt request e)) ''Access-Control-Allow-Origin'' = Some ''*''
   \<and> map_of (headers (fetch rt request e)) ''Access-Control-Allow-Methods'' = Some ''GET, POST, OPTIONS''
   \<and> map_of (headers (fetch rt request e)) ''Access-Control-Allow-Headers''
       = Some ''Content-Type, Authorization''"
proof -
  obtain r' where "fetch rt request e = setCorsHeaders r'"
    using fetch_is_setCorsHeaders by blast
  then show ?thesis
    by (simp only: setCorsHeaders_headers)
qed

text \<open>The headers are there on a response of status 400.\<close>

theorem fetch_cors_headers_witness:
  "map_of (headers (fetch example_runtime
        \<lparr>req_method = ''POST'', pathname = ''/graphql'',
         json = Inl (Thrown SyntaxError ''Unexpected end of JSON input'')\<rparr>
        \<lparr>OPENAI_API_KEY = JUndefined\<rparr>)) ''Access-Control-Allow-Origin'' = Some ''*''
   \<and> status (fetch example_runtime
        \<lparr>req_method = ''POST'', pathname = ''/graphql'',
         json = Inl (Thrown SyntaxError ''Unexpected end of JSON input'')\<rparr>
        \<lparr>OPENAI_API_KEY = JUndefined\<rparr>) = 400"
  using fetch_cors_headers [of example_runtime
        "\<lparr>req_method = ''POST'', pathname = ''/graphql'',
         json = Inl (Thrown SyntaxError ''Unexpected end of JSON input'')\<rparr>"
        "\<lparr>OPENAI_API_KEY = JUndefined\<rparr>"]
  by (simp add: fetch_post new_Response_def post_try_def)

end
